theory Spec2Isabelle
  imports Main "HOL-Library.Word"
begin

section \<open>Faults shared by both parts of the model\<close>

text \<open>
  C++ undefined behaviour that the modelled code can reach is a value of the model:
  dereferencing a null \<^verbatim>\<open>std::unique_ptr\<close>, and \<^verbatim>\<open>std::string::front()\<close> on an
  empty string.
\<close>

datatype error = NullDereference | FrontOfEmptyString

section \<open>The calculator (rewriter/calculator/calculator.cc)\<close>

subsection \<open>Tokens and collaborators\<close>

text \<open>
  The token codes \<^verbatim>\<open>INTEGER\<close>, \<^verbatim>\<open>PLUS\<close>, ... are the integer constants of the
  generated parser (\<^verbatim>\<open>parser.c.inc\<close>, not among the sources); the code only compares
  them for equality, so they are the constructors of a datatype.
\<close>

datatype token_type = INTEGER | PLUS | MINUS | TIMES | DIVIDE | MOD | POW | LP | RP

text \<open>\<^verbatim>\<open>typedef std::vector<std::pair<int, double> > TokenSequence\<close>, for a type
  \<open>'d\<close> of doubles.\<close>

type_synonym 'd TokenSequence = "(token_type \<times> 'd) list"

text \<open>
  What \<^verbatim>\<open>CalculatorImpl\<close> calls and the sources do not hold is a parameter of the model:
  \<^item> \<open>FullWidthAsciiToHalfWidthAscii\<close>: \<^verbatim>\<open>japanese_util::FullWidthAsciiToHalfWidthAscii\<close>;
  \<^item> \<open>SafeStrToDouble\<close>: \<^verbatim>\<open>NumberUtil::SafeStrToDouble\<close>, \<open>None\<close> when it returns false;
  \<^item> \<open>Parse\<close>: the Lemon parser fed every token and then the end marker; \<open>None\<close> when
    \<^verbatim>\<open>result.error_type != Result::ACCEPTED\<close>, the value otherwise;
  \<^item> \<open>SNPrintF\<close>: \<^verbatim>\<open>absl::SNPrintF(buffer, sizeof(buffer), "%.8g", result_value)\<close>;
  \<^item> \<open>zero_double\<close>: the double \<^verbatim>\<open>0.0\<close>.
\<close>

record 'd externals =
  FullWidthAsciiToHalfWidthAscii :: "string \<Rightarrow> string"
  SafeStrToDouble :: "string \<Rightarrow> 'd option"
  Parse :: "'d TokenSequence \<Rightarrow> 'd option"
  SNPrintF :: "'d \<Rightarrow> string"
  zero_double :: 'd

definition kMaxLengthOfOperator :: nat where
  "kMaxLengthOfOperator = 3"

text \<open>
  \<^verbatim>\<open>operator_map_\<close> as the constructor fills it. The two keys outside ASCII are the
  UTF-8 bytes of the source file: U+30FC (prolonged sound mark) and U+30FB (middle dot).
\<close>

definition operator_map :: "string \<Rightarrow> token_type option" where
  "operator_map = map_of
     [(''+'', PLUS),
      (''-'', MINUS),
      ([CHR 0xE3, CHR 0x83, CHR 0xBC], MINUS),
      (''*'', TIMES),
      (''/'', DIVIDE),
      ([CHR 0xE3, CHR 0x83, CHR 0xBB], DIVIDE),
      (''%'', MOD),
      (''^'', POW),
      (''('', LP),
      ('')'', RP)]"

subsection \<open>Tokenize\<close>

text \<open>\<^verbatim>\<open>(*current == ' ') || (*current == '\t')\<close>\<close>

definition is_space :: "char \<Rightarrow> bool" where
  "is_space c \<longleftrightarrow> c = CHR '' '' \<or> c = CHR 0x09"

text \<open>\<^verbatim>\<open>((*current >= '0') && (*current <= '9')) || (*current == '.')\<close>: a byte
  above 0x7F is outside the range whether \<^verbatim>\<open>char\<close> is signed or not.\<close>

definition is_value_char :: "char \<Rightarrow> bool" where
  "is_value_char c \<longleftrightarrow>
     (48 \<le> (of_char c :: nat) \<and> (of_char c :: nat) \<le> 57) \<or> c = CHR ''.''"

text \<open>
  The \<^verbatim>\<open>for\<close> loop that reads an operator token at \<open>cur\<close>, from window length
  \<open>len\<close> on. \<open>InvalidToken\<close> is its \<^verbatim>\<open>return false\<close> (the window passes
  \<^verbatim>\<open>end\<close>), \<open>NoOperator\<close> is the loop running out of lengths, and
  \<open>Operator t len\<close> is the \<^verbatim>\<open>break\<close> after a token of type \<open>t\<close> and \<open>len\<close> bytes.
\<close>

datatype operator_scan = InvalidToken | NoOperator | Operator token_type nat

function read_operator :: "nat \<Rightarrow> string \<Rightarrow> operator_scan" where
  "read_operator len cur =
     (if len \<le> kMaxLengthOfOperator then
        (if len > length cur then InvalidToken
         else (case operator_map (take len cur) of
                 None \<Rightarrow> read_operator (len + 1) cur
               | Some t \<Rightarrow> Operator t len))
      else NoOperator)"
  by pat_completeness auto
termination
  by (relation "measure (\<lambda>(len, cur). kMaxLengthOfOperator + 1 - len)") auto

lemma read_operator_Operator:
  "read_operator len cur = Operator t n \<Longrightarrow>
     len \<le> n \<and> n \<le> length cur \<and> operator_map (take n cur) = Some t"
proof (induction len cur rule: read_operator.induct)
  case (1 len cur)
  then show ?case
    by (auto split: if_splits option.splits)
qed

text \<open>
  The \<^verbatim>\<open>while (current < end)\<close> loop of \<^verbatim>\<open>Tokenize\<close>. \<open>cur\<close> is the text from
  \<^verbatim>\<open>current\<close> to \<^verbatim>\<open>end\<close>. The two inner \<^verbatim>\<open>while\<close> loops test \<^verbatim>\<open>*current\<close>
  without comparing against \<^verbatim>\<open>end\<close>; in both calls of \<^verbatim>\<open>CalculateString\<close> the byte at
  \<^verbatim>\<open>end\<close> is the terminating NUL or the trailing \<^verbatim>\<open>=\<close> of \<^verbatim>\<open>normalized_key\<close>,
  which stops them, so they are \<open>dropWhile\<close> and \<open>takeWhile\<close> on \<open>cur\<close>.
  The counters are C \<^verbatim>\<open>int\<close>s that count tokens of the key, at most one per byte.
  The result is the returned flag with \<^verbatim>\<open>*tokens\<close> as the call leaves it.
\<close>

function Tokenize_loop ::
  "'d externals \<Rightarrow> string \<Rightarrow> nat \<Rightarrow> nat \<Rightarrow> 'd TokenSequence \<Rightarrow> bool \<times> 'd TokenSequence" where
  "Tokenize_loop ext cur num_operator num_value tokens =
     (if cur = [] then (\<not> (num_operator = 0 \<or> num_value = 0), tokens)
      else if takeWhile is_value_char (dropWhile is_space cur) \<noteq> [] then
        (case SafeStrToDouble ext (takeWhile is_value_char (dropWhile is_space cur)) of
           None \<Rightarrow> (False, tokens)
         | Some v \<Rightarrow>
             Tokenize_loop ext (dropWhile is_value_char (dropWhile is_space cur))
               num_operator (num_value + 1) (tokens @ [(INTEGER, v)]))
      else
        (case read_operator 1 (dropWhile is_space cur) of
           Operator t len \<Rightarrow>
             Tokenize_loop ext (drop len (dropWhile is_space cur))
               (if t \<noteq> LP \<and> t \<noteq> RP then num_operator + 1 else num_operator)
               num_value (tokens @ [(t, zero_double ext)])
         | InvalidToken \<Rightarrow> (False, tokens)
         | NoOperator \<Rightarrow> (False, tokens)))"
  by pat_completeness auto
termination
proof (relation "measure (\<lambda>(ext, cur, no, nv, toks). length cur)", goal_cases)
  case 1
  then show ?case by simp
next
  case (2 ext cur num_operator num_value tokens v)
  have "length (dropWhile is_value_char (dropWhile is_space cur))
        < length (dropWhile is_space cur)"
    using 2(2)
    by (cases "dropWhile is_space cur")
       (auto simp: le_imp_less_Suc length_dropWhile_le split: if_splits)
  moreover have "length (dropWhile is_space cur) \<le> length cur"
    by (rule length_dropWhile_le)
  ultimately show ?case by simp
next
  case (3 ext cur num_operator num_value tokens t len)
  from read_operator_Operator[OF 3(3)]
  have "1 \<le> len" "len \<le> length (dropWhile is_space cur)" by auto
  moreover have "length (dropWhile is_space cur) \<le> length cur"
    by (rule length_dropWhile_le)
  ultimately show ?case by simp
qed

text \<open>\<^verbatim>\<open>Tokenize\<close>: \<^verbatim>\<open>tokens->clear()\<close>, both counters 0, then the loop.\<close>

definition Tokenize :: "'d externals \<Rightarrow> string \<Rightarrow> bool \<times> 'd TokenSequence" where
  "Tokenize ext expression_body = Tokenize_loop ext expression_body 0 0 []"

subsection \<open>CalculateTokens and CalculateString\<close>

text \<open>\<^verbatim>\<open>CalculateTokens\<close>: the returned flag with \<^verbatim>\<open>*result_value\<close>, which is written
  only when the parser accepted.\<close>

definition CalculateTokens :: "'d externals \<Rightarrow> 'd TokenSequence \<Rightarrow> 'd \<Rightarrow> bool \<times> 'd" where
  "CalculateTokens ext tokens result_value =
     (case Parse ext tokens of
        None \<Rightarrow> (False, result_value)
      | Some v \<Rightarrow> (True, v))"

text \<open>The part of \<^verbatim>\<open>CalculateString\<close> after \<^verbatim>\<open>expression_body\<close> is chosen: the
  returned flag with \<^verbatim>\<open>*result\<close>.\<close>

definition calculate_body :: "'d externals \<Rightarrow> string \<Rightarrow> bool \<times> string" where
  "calculate_body ext expression_body =
     (case Tokenize ext expression_body of
        (tokenized, tokens) \<Rightarrow>
          if \<not> tokenized then (False, [])
          else (case CalculateTokens ext tokens (zero_double ext) of
                  (calculated, result_value) \<Rightarrow>
                    if \<not> calculated then (False, [])
                    else (True, SNPrintF ext result_value)))"

text \<open>
  \<^verbatim>\<open>CalculateString(key, result)\<close>. The second argument is \<^verbatim>\<open>*result\<close> as the caller
  passes it; the value is the returned flag with \<^verbatim>\<open>*result\<close> on return.
  \<^verbatim>\<open>normalized_key.front()\<close> on an empty string is undefined behaviour and a fault of
  the model. \<open>tl\<close> is the view from \<^verbatim>\<open>data() + 1\<close> of length \<^verbatim>\<open>size() - 1\<close>,
  \<open>butlast\<close> the view from \<^verbatim>\<open>data()\<close> of that length.
\<close>

definition CalculateString :: "'d externals \<Rightarrow> string \<Rightarrow> string \<Rightarrow> error + bool \<times> string" where
  "CalculateString ext key result =
     (if key = [] then Inr (False, result)
      else
        (let normalized_key = FullWidthAsciiToHalfWidthAscii ext key in
         if normalized_key = [] then Inl FrontOfEmptyString
         else if hd normalized_key = CHR ''='' then
           Inr (calculate_body ext (tl normalized_key))
         else if last normalized_key = CHR ''='' then
           Inr (calculate_body ext (butlast normalized_key))
         else Inr (False, [])))"

section \<open>The engine (engine/engine.h)\<close>

subsection \<open>Collaborators\<close>

text \<open>
  The classes the engine hands out pointers to are declared in headers that are not among
  the sources. An object the engine only passes on is an identity; an object the engine
  calls a getter of is a record of what that getter returns.
\<close>

datatype ConverterInterface = ConverterObject nat

datatype ImmutableConverterInterface = ImmutableConverterObject nat

datatype RewriterInterface = RewriterObject nat

datatype UserDataManagerInterface = UserDataManagerObject nat

datatype SuppressionDictionary = SuppressionDictionaryObject nat

datatype SpellcheckerInterface = SpellcheckerObject nat

text \<open>\<^verbatim>\<open>prediction::PredictorInterface\<close>, read through \<^verbatim>\<open>GetPredictorName()\<close>.\<close>

record PredictorInterface =
  predictor_name :: string

text \<open>\<^verbatim>\<open>DataManagerInterface\<close>, read through \<^verbatim>\<open>GetDataVersion()\<close>.\<close>

record DataManagerInterface =
  data_version :: string

text \<open>The user dictionary of the modules, read through \<^verbatim>\<open>GetPosList()\<close>.\<close>

record UserDictionaryInterface =
  pos_list :: "string list"

text \<open>
  \<^verbatim>\<open>engine::Modules\<close> is declared in engine/modules.h, which is not among the sources.
  What its getters return is a parameter of the model, one field per getter
  (\<^verbatim>\<open>GetDataManager()\<close>, \<^verbatim>\<open>GetMutableSuppressionDictionary()\<close>,
  \<^verbatim>\<open>GetUserDictionary()\<close>); \<^verbatim>\<open>SetSpellchecker\<close> stores the pointer it is given in
  the last field.
\<close>

record Modules =
  data_manager :: DataManagerInterface
  suppression_dictionary :: SuppressionDictionary
  user_dictionary :: UserDictionaryInterface
  spellchecker :: "SpellcheckerInterface option"

text \<open>
  \<^verbatim>\<open>MinimalEngine\<close> is declared in engine/minimal_engine.h, which is not among the
  sources. What its getters return is a parameter of the model, one field per getter. They
  return objects, never a null pointer: it is the spec's FallbackEngine, "stateless,
  always-constructible, never fails", there "so that a caller never receives a null/invalid
  component".
\<close>

record MinimalEngine =
  minimal_converter :: ConverterInterface
  minimal_predictor_name :: string
  minimal_suppression_dictionary :: SuppressionDictionary
  minimal_user_data_manager :: UserDataManagerInterface
  minimal_data_manager :: DataManagerInterface
  minimal_pos_list :: "string list"

text \<open>
  Modelled from the spec: \<^verbatim>\<open>EngineReloadRequest\<close> (its declaration is not among the
  sources): "request carries a target-data descriptor and an engine-flavor flag
  (desktop/mobile)".
\<close>

record EngineReloadRequest =
  request_target :: string
  request_is_mobile :: bool

subsection \<open>The engine's state\<close>

text \<open>
  The data members of \<^verbatim>\<open>class Engine\<close>, without the trailing underscore of their names.
  A \<^verbatim>\<open>std::unique_ptr\<close> or raw pointer is an \<open>option\<close>, \<open>None\<close> when null; the two
  \<^verbatim>\<open>std::atomic<uint64_t>\<close> counters are 64-bit words. Two members have types that are
  not among the sources: \<^verbatim>\<open>loader_\<close> is represented by the request the spec says the
  controller stores (\<open>loader_request\<close>), and \<^verbatim>\<open>loader_response_future_\<close> by the
  generation id its build is tagged with.
\<close>

record Engine =
  initialized :: bool
  minimal_engine :: MinimalEngine
  loader_request :: "EngineReloadRequest option"
  modules :: "Modules option"
  immutable_converter :: "ImmutableConverterInterface option"
  predictor :: "PredictorInterface option"
  rewriter :: "RewriterInterface option"
  converter :: "ConverterInterface option"
  user_data_manager :: "UserDataManagerInterface option"
  latest_data_id :: "64 word"
  current_data_id :: "64 word"
  loader_response_future :: "64 word option"
  always_wait_for_loader_response_future :: bool

text \<open>
  \<^verbatim>\<open>Engine::CreateEngine()\<close>, "creates an engine with no initialization". The
  constructor's body is in engine.cc, which is not among the sources; the state is the one
  the header's default member initializers give (\<^verbatim>\<open>initialized_ = false\<close>, both counters
  0, \<^verbatim>\<open>predictor_ = nullptr\<close>, every \<^verbatim>\<open>std::unique_ptr\<close> null), which is also the
  spec's start: "EngineController starts in Fallback with no SubsystemSet".
\<close>

definition CreateEngine :: "MinimalEngine \<Rightarrow> Engine" where
  "CreateEngine fallback =
     \<lparr> initialized = False,
       minimal_engine = fallback,
       loader_request = None,
       modules = None,
       immutable_converter = None,
       predictor = None,
       rewriter = None,
       converter = None,
       user_data_manager = None,
       latest_data_id = 0,
       current_data_id = 0,
       loader_response_future = None,
       always_wait_for_loader_response_future = False \<rparr>"

subsection \<open>The accessors defined in the header\<close>

text \<open>\<^verbatim>\<open>return initialized_ ? converter_.get() : minimal_engine_.GetConverter();\<close>\<close>

definition GetConverter :: "Engine \<Rightarrow> ConverterInterface option" where
  "GetConverter e =
     (if initialized e then converter e else Some (minimal_converter (minimal_engine e)))"

text \<open>When initialized, \<^verbatim>\<open>predictor_ ? predictor_->GetPredictorName() :
  absl::string_view()\<close>.\<close>

definition GetPredictorName :: "Engine \<Rightarrow> string" where
  "GetPredictorName e =
     (if initialized e then
        (case predictor e of Some p \<Rightarrow> predictor_name p | None \<Rightarrow> [])
      else minimal_predictor_name (minimal_engine e))"

text \<open>\<^verbatim>\<open>modules_->GetMutableSuppressionDictionary()\<close> dereferences \<^verbatim>\<open>modules_\<close>.\<close>

definition GetSuppressionDictionary :: "Engine \<Rightarrow> error + SuppressionDictionary" where
  "GetSuppressionDictionary e =
     (if initialized e then
        (case modules e of
           None \<Rightarrow> Inl NullDereference
         | Some m \<Rightarrow> Inr (suppression_dictionary m))
      else Inr (minimal_suppression_dictionary (minimal_engine e)))"

definition GetUserDataManager :: "Engine \<Rightarrow> UserDataManagerInterface option" where
  "GetUserDataManager e =
     (if initialized e then user_data_manager e
      else Some (minimal_user_data_manager (minimal_engine e)))"

text \<open>\<^verbatim>\<open>return initialized_ ? &modules_->GetDataManager() :
  minimal_engine_.GetDataManager();\<close>\<close>

definition GetDataManager :: "Engine \<Rightarrow> error + DataManagerInterface" where
  "GetDataManager e =
     (if initialized e then
        (case modules e of
           None \<Rightarrow> Inl NullDereference
         | Some m \<Rightarrow> Inr (data_manager m))
      else Inr (minimal_data_manager (minimal_engine e)))"

text \<open>\<^verbatim>\<open>return GetDataManager()->GetDataVersion();\<close>\<close>

definition GetDataVersion :: "Engine \<Rightarrow> error + string" where
  "GetDataVersion e =
     (case GetDataManager e of
        Inl fault \<Rightarrow> Inl fault
      | Inr manager \<Rightarrow> Inr (data_version manager))"

text \<open>\<^verbatim>\<open>return initialized_ ? modules_->GetUserDictionary()->GetPosList() :
  minimal_engine_.GetPosList();\<close>\<close>

definition GetPosList :: "Engine \<Rightarrow> error + string list" where
  "GetPosList e =
     (if initialized e then
        (case modules e of
           None \<Rightarrow> Inl NullDereference
         | Some m \<Rightarrow> Inr (pos_list (user_dictionary m)))
      else Inr (minimal_pos_list (minimal_engine e)))"

text \<open>\<^verbatim>\<open>modules_->SetSpellchecker(spellchecker);\<close> with no test of
  \<^verbatim>\<open>initialized_\<close>. The value is the engine after the call.\<close>

definition SetSpellchecker :: "Engine \<Rightarrow> SpellcheckerInterface option \<Rightarrow> error + Engine" where
  "SetSpellchecker e checker =
     (case modules e of
        None \<Rightarrow> Inl NullDereference
      | Some m \<Rightarrow> Inr (e\<lparr>modules := Some (m\<lparr>spellchecker := checker\<rparr>)\<rparr>))"

subsection \<open>The reload operations declared in the header\<close>

text \<open>
  Modelled from the spec: the SubsystemSet a finished build delivers (the Loader and its
  response type are not among the sources): the bundle together with the converter,
  predictor and rewriter chain built from it, since "SubsystemSet construction happens
  entirely inside the Loader before the handle is reaped".
\<close>

record SubsystemSet =
  set_modules :: Modules
  set_immutable_converter :: ImmutableConverterInterface
  set_predictor :: PredictorInterface
  set_rewriter :: RewriterInterface
  set_converter :: ConverterInterface
  set_user_data_manager :: UserDataManagerInterface

text \<open>
  Modelled from the spec: the ReloadResponse (its declaration is not among the sources):
  "response carries generation id, success flag, and diagnostic status/message", and the
  bundle that step 3 of the promotion algorithm reads. The bundle of a failed response is
  never read.
\<close>

record ReloadResponse =
  response_id :: "64 word"
  response_success :: bool
  response_status :: string
  response_bundle :: SubsystemSet

text \<open>
  Modelled from the spec: \<^verbatim>\<open>Engine::SendEngineReloadRequest\<close> (declared in engine.h,
  defined in engine.cc, which is not among the sources): it "validates the request
  superficially (non-empty target) and, if accepted, increments latest_id, stores the
  request, and signals that a background build should start; returns false if the request
  is malformed. Does not itself build anything."
\<close>

definition SendEngineReloadRequest :: "Engine \<Rightarrow> EngineReloadRequest \<Rightarrow> bool \<times> Engine" where
  "SendEngineReloadRequest e request =
     (if request_target request = [] then (False, e)
      else (True, e\<lparr>latest_data_id := latest_data_id e + 1, loader_request := Some request\<rparr>))"

text \<open>
  Modelled from the spec: step 3 of the promotion algorithm (the code is in engine.cc, not
  among the sources): exchange the new SubsystemSet "with the currently active one (if any)
  as a single atomic replace-and-release step; set mode = Active; set
  current_id = response.id".
\<close>

definition promote :: "Engine \<Rightarrow> ReloadResponse \<Rightarrow> Engine" where
  "promote e response =
     e\<lparr> modules := Some (set_modules (response_bundle response)),
        immutable_converter := Some (set_immutable_converter (response_bundle response)),
        predictor := Some (set_predictor (response_bundle response)),
        rewriter := Some (set_rewriter (response_bundle response)),
        converter := Some (set_converter (response_bundle response)),
        user_data_manager := Some (set_user_data_manager (response_bundle response)),
        initialized := True,
        current_data_id := response_id response \<rparr>"

text \<open>
  Modelled from the spec: \<^verbatim>\<open>Engine::MaybeReloadEngine\<close> (declared in engine.h, defined
  in engine.cc, which is not among the sources), the promotion algorithm: "1. If
  response.id < latest_id: discard [...] mode/current unchanged. 2. If response.status
  indicates failure: discard [...] mode/current unchanged. 3. Otherwise: [promote]". It
  "returns whether the active generation changed".
\<close>

definition MaybeReloadEngine :: "Engine \<Rightarrow> ReloadResponse \<Rightarrow> bool \<times> Engine" where
  "MaybeReloadEngine e response =
     (if response_id response < latest_data_id e then (False, e)
      else if \<not> response_success response then (False, e)
      else (True, promote e response))"

text \<open>
  Modelled from the spec: the calls that move the generation counters, as events of a run
  of the controller: a reload request is sent, or a completed response is reaped.
\<close>

datatype event = Request EngineReloadRequest | Reap ReloadResponse

fun step :: "Engine \<Rightarrow> event \<Rightarrow> Engine" where
  "step e (Request request) = snd (SendEngineReloadRequest e request)"
| "step e (Reap response) = snd (MaybeReloadEngine e response)"

fun run :: "Engine \<Rightarrow> event list \<Rightarrow> Engine" where
  "run e [] = e"
| "run e (ev # evs) = run (step e ev) evs"

section \<open>Predicates of the statements and concrete inputs\<close>

subsection \<open>Token sequences and expression bodies\<close>

text \<open>A number token, and an operator token that is not a parenthesis, in a token
  sequence.\<close>

definition has_number :: "'d TokenSequence \<Rightarrow> bool" where
  "has_number tokens \<longleftrightarrow> (\<exists>x \<in> set tokens. fst x = INTEGER)"

definition has_operator :: "'d TokenSequence \<Rightarrow> bool" where
  "has_operator tokens \<longleftrightarrow> (\<exists>x \<in> set tokens. fst x \<noteq> INTEGER \<and> fst x \<noteq> LP \<and> fst x \<noteq> RP)"

text \<open>The first byte of every key of \<open>operator_map\<close> whose token is not a
  parenthesis.\<close>

definition operator_byte :: "char \<Rightarrow> bool" where
  "operator_byte c \<longleftrightarrow>
     c = CHR ''+'' \<or> c = CHR ''-'' \<or> c = CHR ''*'' \<or> c = CHR ''/'' \<or> c = CHR ''%'' \<or>
     c = CHR ''^'' \<or> c = CHR 0xE3"

text \<open>Expression bodies without an operator or without a number: only numbers (and
  blanks), no digit or point at all, only numbers in parentheses.\<close>

definition only_numbers :: "string \<Rightarrow> bool" where
  "only_numbers body \<longleftrightarrow> (\<forall>c \<in> set body. is_value_char c \<or> is_space c)"

definition only_operators :: "string \<Rightarrow> bool" where
  "only_operators body \<longleftrightarrow> (\<forall>c \<in> set body. \<not> is_value_char c)"

definition only_parenthesized_numbers :: "string \<Rightarrow> bool" where
  "only_parenthesized_numbers body \<longleftrightarrow>
     (\<forall>c \<in> set body. is_value_char c \<or> is_space c \<or> c = CHR ''('' \<or> c = CHR '')'')"

text \<open>The normalized key is \<open>body\<close> with \<^verbatim>\<open>=\<close> in front, or with \<^verbatim>\<open>=\<close> behind
  and none in front: the two branches of \<open>CalculateString\<close> that reach \<open>Tokenize\<close>.\<close>

definition delimited_expression :: "string \<Rightarrow> string \<Rightarrow> bool" where
  "delimited_expression normalized_key body \<longleftrightarrow>
     normalized_key = CHR ''='' # body \<or>
     (normalized_key = body @ [CHR ''=''] \<and> hd normalized_key \<noteq> CHR ''='')"

subsection \<open>Concrete inputs\<close>

text \<open>
  Collaborators for concrete calculator inputs: the normalization leaves an ASCII key as it
  is, a number token without a point is read in decimal, the parser accepts exactly
  \<open>a + b\<close>, and a value is printed in unary.
\<close>

definition demo_externals :: "nat externals" where
  "demo_externals =
     \<lparr> FullWidthAsciiToHalfWidthAscii = (\<lambda>s. s),
       SafeStrToDouble =
         (\<lambda>s. if CHR ''.'' \<in> set s then None
              else Some (foldl (\<lambda>n c. 10 * n + (of_char c - 48)) 0 s)),
       Parse =
         (\<lambda>tokens. case tokens of
            [(INTEGER, a), (PLUS, z), (INTEGER, b)] \<Rightarrow> Some (a + b)
          | _ \<Rightarrow> None),
       SNPrintF = (\<lambda>d. replicate d CHR ''|''),
       zero_double = 0 \<rparr>"

text \<open>A fallback engine, a bundle with its subsystems, an engine serving that bundle, a
  request and responses.\<close>

definition demo_minimal_engine :: MinimalEngine where
  "demo_minimal_engine =
     \<lparr> minimal_converter = ConverterObject 0,
       minimal_predictor_name = ''MinimalPredictor'',
       minimal_suppression_dictionary = SuppressionDictionaryObject 0,
       minimal_user_data_manager = UserDataManagerObject 0,
       minimal_data_manager = \<lparr> data_version = ''0.0.0'' \<rparr>,
       minimal_pos_list = [] \<rparr>"

definition demo_modules :: Modules where
  "demo_modules =
     \<lparr> data_manager = \<lparr> data_version = ''24.1'' \<rparr>,
       suppression_dictionary = SuppressionDictionaryObject 1,
       user_dictionary = \<lparr> pos_list = [''noun'', ''verb''] \<rparr>,
       spellchecker = None \<rparr>"

definition demo_bundle :: SubsystemSet where
  "demo_bundle =
     \<lparr> set_modules = demo_modules,
       set_immutable_converter = ImmutableConverterObject 1,
       set_predictor = \<lparr> predictor_name = ''DefaultPredictor'' \<rparr>,
       set_rewriter = RewriterObject 1,
       set_converter = ConverterObject 1,
       set_user_data_manager = UserDataManagerObject 1 \<rparr>"

definition demo_request :: EngineReloadRequest where
  "demo_request = \<lparr> request_target = ''mozc.data'', request_is_mobile = False \<rparr>"

definition demo_response :: "64 word \<Rightarrow> bool \<Rightarrow> ReloadResponse" where
  "demo_response n ok =
     \<lparr> response_id = n, response_success = ok, response_status = [],
       response_bundle = demo_bundle \<rparr>"

definition demo_active_engine :: Engine where
  "demo_active_engine =
     (CreateEngine demo_minimal_engine)
       \<lparr> initialized := True,
         modules := Some demo_modules,
         predictor := Some \<lparr> predictor_name = ''DefaultPredictor'' \<rparr>,
         converter := Some (ConverterObject 1),
         user_data_manager := Some (UserDataManagerObject 1) \<rparr>"

section \<open>The calculator: theorems\<close>

lemma operator_map_Some:
  "operator_map s = Some t \<Longrightarrow>
     t \<noteq> INTEGER \<and> s \<noteq> [] \<and> (t \<noteq> LP \<and> t \<noteq> RP \<longrightarrow> operator_byte (hd s))"
  by (auto simp: operator_map_def operator_byte_def split: if_splits)

lemma read_operator_token:
  assumes "read_operator len cur = Operator t n" "0 < len"
  shows "t \<noteq> INTEGER" "cur \<noteq> []" "t \<noteq> LP \<and> t \<noteq> RP \<longrightarrow> operator_byte (hd cur)"
proof -
  from read_operator_Operator[OF assms(1)]
  have n: "len \<le> n" "n \<le> length cur" and m: "operator_map (take n cur) = Some t" by auto
  from operator_map_Some[OF m] have t: "t \<noteq> INTEGER" "take n cur \<noteq> []"
    and b: "t \<noteq> LP \<and> t \<noteq> RP \<longrightarrow> operator_byte (hd (take n cur))" by auto
  show "t \<noteq> INTEGER" by (rule t)
  show c: "cur \<noteq> []" using t(2) by auto
  have "hd (take n cur) = hd cur" using n assms(2) c by (cases cur; cases n) auto
  with b show "t \<noteq> LP \<and> t \<noteq> RP \<longrightarrow> operator_byte (hd cur)" by simp
qed

lemma Tokenize_loop_accepts:
  "Tokenize_loop ext cur num_operator num_value tokens = (True, tokens') \<Longrightarrow>
   (0 < num_value \<longrightarrow> has_number tokens) \<Longrightarrow>
   (0 < num_operator \<longrightarrow> has_operator tokens) \<Longrightarrow>
   has_number tokens' \<and> has_operator tokens'"
proof (induction ext cur num_operator num_value tokens rule: Tokenize_loop.induct)
  case (1 ext cur num_operator num_value tokens)
  show ?case
  proof (cases "cur = []")
    case True
    with 1(3-) show ?thesis by (simp split: if_splits)
  next
    case nonempty: False
    show ?thesis
    proof (cases "takeWhile is_value_char (dropWhile is_space cur) \<noteq> []")
      case True
      with nonempty 1(3) obtain v where
        v: "SafeStrToDouble ext (takeWhile is_value_char (dropWhile is_space cur)) = Some v"
        and r: "Tokenize_loop ext (dropWhile is_value_char (dropWhile is_space cur))
                  num_operator (num_value + 1) (tokens @ [(INTEGER, v)]) = (True, tokens')"
        by (auto split: option.splits)
      have "has_number (tokens @ [(INTEGER, v)])" by (simp add: has_number_def)
      moreover have "0 < num_operator \<longrightarrow> has_operator (tokens @ [(INTEGER, v)])"
        using 1(5) by (auto simp: has_operator_def)
      ultimately show ?thesis
        using 1(1)[OF nonempty True v r] by simp
    next
      case False
      with nonempty 1(3) obtain t len where
        s: "read_operator 1 (dropWhile is_space cur) = Operator t len"
        and r: "Tokenize_loop ext (drop len (dropWhile is_space cur))
                  (if t \<noteq> LP \<and> t \<noteq> RP then num_operator + 1 else num_operator)
                  num_value (tokens @ [(t, zero_double ext)]) = (True, tokens')"
        by (auto split: operator_scan.splits)
      have t: "t \<noteq> INTEGER" using read_operator_token(1)[OF s] by simp
      have "0 < num_value \<longrightarrow> has_number (tokens @ [(t, zero_double ext)])"
        using 1(4) by (auto simp: has_number_def)
      moreover have "0 < (if t \<noteq> LP \<and> t \<noteq> RP then num_operator + 1 else num_operator)
          \<longrightarrow> has_operator (tokens @ [(t, zero_double ext)])"
        using 1(5) t by (auto simp: has_operator_def)
      ultimately show ?thesis
        using 1(2)[OF nonempty False s r] by simp
    qed
  qed
qed

lemma Tokenize_loop_no_operator_byte:
  "\<forall>c \<in> set cur. \<not> operator_byte c \<Longrightarrow> num_operator = 0 \<Longrightarrow>
   \<not> fst (Tokenize_loop ext cur num_operator num_value tokens)"
proof (induction ext cur num_operator num_value tokens rule: Tokenize_loop.induct)
  case (1 ext cur num_operator num_value tokens)
  show ?case
  proof (cases "cur = []")
    case True
    with 1(4) show ?thesis by simp
  next
    case nonempty: False
    have sub: "set (dropWhile is_space cur) \<subseteq> set cur"
      by (auto dest: set_dropWhileD)
    show ?thesis
    proof (cases "takeWhile is_value_char (dropWhile is_space cur) \<noteq> []")
      case True
      show ?thesis
      proof (cases "SafeStrToDouble ext (takeWhile is_value_char (dropWhile is_space cur))")
        case None
        with nonempty True show ?thesis by simp
      next
        case (Some v)
        have "\<forall>c \<in> set (dropWhile is_value_char (dropWhile is_space cur)). \<not> operator_byte c"
          using 1(3) sub by (auto dest: set_dropWhileD)
        from 1(1)[OF nonempty True Some this 1(4)] nonempty True Some
        show ?thesis by simp
      qed
    next
      case False
      show ?thesis
      proof (cases "read_operator 1 (dropWhile is_space cur)")
        case InvalidToken
        with nonempty False show ?thesis by simp
      next
        case NoOperator
        with nonempty False show ?thesis by simp
      next
        case (Operator t len)
        from read_operator_token[OF Operator]
        have c: "dropWhile is_space cur \<noteq> []"
          and b: "t \<noteq> LP \<and> t \<noteq> RP \<longrightarrow> operator_byte (hd (dropWhile is_space cur))" by auto
        have "hd (dropWhile is_space cur) \<in> set cur" using c sub by (metis hd_in_set subsetD)
        with 1(3) b have paren: "\<not> (t \<noteq> LP \<and> t \<noteq> RP)" by blast
        have rest: "\<forall>c \<in> set (drop len (dropWhile is_space cur)). \<not> operator_byte c"
          using 1(3) sub by (auto dest: in_set_dropD)
        have zero: "(if t \<noteq> LP \<and> t \<noteq> RP then num_operator + 1 else num_operator) = 0"
          using paren 1(4) by simp
        from 1(2)[OF nonempty False Operator rest zero] nonempty False Operator
        show ?thesis by simp
      qed
    qed
  qed
qed

lemma Tokenize_loop_no_value_char:
  "\<forall>c \<in> set cur. \<not> is_value_char c \<Longrightarrow> num_value = 0 \<Longrightarrow>
   \<not> fst (Tokenize_loop ext cur num_operator num_value tokens)"
proof (induction ext cur num_operator num_value tokens rule: Tokenize_loop.induct)
  case (1 ext cur num_operator num_value tokens)
  show ?case
  proof (cases "cur = []")
    case True
    with 1(4) show ?thesis by simp
  next
    case nonempty: False
    have sub: "set (dropWhile is_space cur) \<subseteq> set cur"
      by (auto dest: set_dropWhileD)
    have novalue: "\<not> takeWhile is_value_char (dropWhile is_space cur) \<noteq> []"
    proof
      assume "takeWhile is_value_char (dropWhile is_space cur) \<noteq> []"
      then have "dropWhile is_space cur \<noteq> [] \<and> is_value_char (hd (dropWhile is_space cur))"
        by (cases "dropWhile is_space cur") (auto split: if_splits)
      then have "\<exists>c \<in> set cur. is_value_char c" using sub by (metis hd_in_set subsetD)
      with 1(3) show False by blast
    qed
    show ?thesis
    proof (cases "read_operator 1 (dropWhile is_space cur)")
      case InvalidToken
      with nonempty novalue show ?thesis by simp
    next
      case NoOperator
      with nonempty novalue show ?thesis by simp
    next
      case (Operator t len)
      have rest: "\<forall>c \<in> set (drop len (dropWhile is_space cur)). \<not> is_value_char c"
        using 1(3) sub by (auto dest: in_set_dropD)
      from 1(2)[OF nonempty novalue Operator rest 1(4)] nonempty novalue Operator
      show ?thesis by simp
    qed
  qed
qed

lemma demo_Tokenize_sum:
  "Tokenize demo_externals ''1+2'' = (True, [(INTEGER, 1), (PLUS, 0), (INTEGER, 2)])"
  by (simp add: demo_externals_def Tokenize_def is_space_def is_value_char_def
      operator_map_def kMaxLengthOfOperator_def)

lemma demo_CalculateString_sum:
  "CalculateString demo_externals ''1+2='' ''old'' = Inr (True, ''|||'')"
  by (simp add: demo_externals_def Tokenize_def is_space_def is_value_char_def
      operator_map_def kMaxLengthOfOperator_def calculate_body_def CalculateTokens_def
      CalculateString_def)

lemma demo_Tokenize_paren:
  "Tokenize demo_externals ''(12)'' = (False, [(LP, 0), (INTEGER, 12), (RP, 0)])"
  by (simp add: demo_externals_def Tokenize_def is_space_def is_value_char_def
      operator_map_def kMaxLengthOfOperator_def)

lemma not_operator_byte:
  "is_value_char c \<or> is_space c \<or> c = CHR ''('' \<or> c = CHR '')'' \<Longrightarrow> \<not> operator_byte c"
  by (auto simp: is_value_char_def is_space_def operator_byte_def)

text \<open>
  Claim C10. \<open>Tokenize\<close> returns true only when the token sequence holds a number token
  and an operator token that is not a parenthesis. So it returns false for a body of only
  numbers, of no number at all (only operators), or of only numbers in parentheses, and
  \<open>CalculateString\<close> returns false, with \<^verbatim>\<open>*result\<close> cleared, for a non-empty key whose
  normalization is such a body with \<^verbatim>\<open>=\<close> in front or behind.
\<close>

theorem Tokenize_requires_number_and_operator:
  "(fst (Tokenize ext body) \<longrightarrow>
      has_number (snd (Tokenize ext body)) \<and> has_operator (snd (Tokenize ext body))) \<and>
   (only_numbers body \<or> only_operators body \<or> only_parenthesized_numbers body \<longrightarrow>
      \<not> fst (Tokenize ext body)) \<and>
   ((only_numbers body \<or> only_operators body \<or> only_parenthesized_numbers body) \<and>
    key \<noteq> [] \<and> delimited_expression (FullWidthAsciiToHalfWidthAscii ext key) body \<longrightarrow>
      CalculateString ext key result = Inr (False, []))"
proof -
  have accepts: "has_number (snd (Tokenize ext body)) \<and> has_operator (snd (Tokenize ext body))"
    if "fst (Tokenize ext body)"
  proof -
    from that have "Tokenize_loop ext body 0 0 [] = (True, snd (Tokenize ext body))"
      by (simp add: Tokenize_def prod_eq_iff)
    from Tokenize_loop_accepts[OF this] show ?thesis by simp
  qed
  have rejects: "\<not> fst (Tokenize ext body)"
    if "only_numbers body \<or> only_operators body \<or> only_parenthesized_numbers body"
  proof -
    from that consider
      "\<forall>c \<in> set body. \<not> operator_byte c" | "\<forall>c \<in> set body. \<not> is_value_char c"
      unfolding only_numbers_def only_operators_def only_parenthesized_numbers_def
      using not_operator_byte by blast
    then show ?thesis
    proof cases
      case 1
      then show ?thesis
        unfolding Tokenize_def by (rule Tokenize_loop_no_operator_byte) simp
    next
      case 2
      then show ?thesis
        unfolding Tokenize_def by (rule Tokenize_loop_no_value_char) simp
    qed
  qed
  have string: "CalculateString ext key result = Inr (False, [])"
    if b: "only_numbers body \<or> only_operators body \<or> only_parenthesized_numbers body"
      and k: "key \<noteq> []"
      and d: "delimited_expression (FullWidthAsciiToHalfWidthAscii ext key) body"
  proof -
    from rejects[OF b] have body: "calculate_body ext body = (False, [])"
      by (cases "Tokenize ext body") (simp add: calculate_body_def)
    from d show ?thesis
      unfolding delimited_expression_def
    proof
      assume "FullWidthAsciiToHalfWidthAscii ext key = CHR ''='' # body"
      with k body show ?thesis by (simp add: CalculateString_def)
    next
      assume "FullWidthAsciiToHalfWidthAscii ext key = body @ [CHR ''='']
          \<and> hd (FullWidthAsciiToHalfWidthAscii ext key) \<noteq> CHR ''=''"
      then have "hd (FullWidthAsciiToHalfWidthAscii ext key) \<noteq> CHR ''=''"
        "last (FullWidthAsciiToHalfWidthAscii ext key) = CHR ''=''"
        "butlast (FullWidthAsciiToHalfWidthAscii ext key) = body"
        "FullWidthAsciiToHalfWidthAscii ext key \<noteq> []"
        by auto
      with k body show ?thesis by (simp add: CalculateString_def Let_def)
    qed
  qed
  from accepts rejects string show ?thesis by blast
qed

theorem Tokenize_requires_number_and_operator_witness:
  "fst (Tokenize demo_externals ''1+2'') \<and>
   has_number (snd (Tokenize demo_externals ''1+2'')) \<and>
   has_operator (snd (Tokenize demo_externals ''1+2'')) \<and>
   only_parenthesized_numbers ''(12)'' \<and>
   delimited_expression (FullWidthAsciiToHalfWidthAscii demo_externals ''(12)='') ''(12)'' \<and>
   \<not> fst (Tokenize demo_externals ''(12)'') \<and>
   CalculateString demo_externals ''(12)='' ''old'' = Inr (False, [])"
proof -
  have a: "fst (Tokenize demo_externals ''1+2'')"
    by (simp add: demo_Tokenize_sum)
  have p: "only_parenthesized_numbers ''(12)''"
    by (simp add: only_parenthesized_numbers_def is_value_char_def is_space_def)
  have d: "delimited_expression (FullWidthAsciiToHalfWidthAscii demo_externals ''(12)='') ''(12)''"
    by (simp add: delimited_expression_def demo_externals_def)
  have k: "''(12)='' \<noteq> []" by simp
  from a p d k
    Tokenize_requires_number_and_operator[of demo_externals "''1+2''" "''(12)=''" "''old''"]
    Tokenize_requires_number_and_operator[of demo_externals "''(12)''" "''(12)=''" "''old''"]
  show ?thesis by blast
qed

text \<open>
  The failure paths of \<open>CalculateString\<close> for a non-empty key: each returns false after
  \<^verbatim>\<open>result->clear()\<close> (the key is not delimited by \<^verbatim>\<open>=\<close>, \<open>Tokenize\<close> fails,
  \<open>CalculateTokens\<close> fails). The empty key returns false as well.
\<close>

lemma CalculateString_failure_paths_clear:
  "(key = [] \<longrightarrow> (\<exists>left. CalculateString ext key result = Inr (False, left))) \<and>
   (key \<noteq> [] \<and> FullWidthAsciiToHalfWidthAscii ext key \<noteq> [] \<and>
    hd (FullWidthAsciiToHalfWidthAscii ext key) \<noteq> CHR ''='' \<and>
    last (FullWidthAsciiToHalfWidthAscii ext key) \<noteq> CHR ''='' \<longrightarrow>
      CalculateString ext key result = Inr (False, [])) \<and>
   (key \<noteq> [] \<and> CalculateString ext key result = Inr (False, cleared) \<longrightarrow> cleared = [])"
proof -
  have failure: "snd (calculate_body ext body) = []" if "\<not> fst (calculate_body ext body)" for body
    using that by (auto simp: calculate_body_def split: prod.splits if_splits)
  have "cleared = []" if "key \<noteq> []" "CalculateString ext key result = Inr (False, cleared)"
    using that failure[of "tl (FullWidthAsciiToHalfWidthAscii ext key)"]
      failure[of "butlast (FullWidthAsciiToHalfWidthAscii ext key)"]
    by (auto simp: CalculateString_def Let_def split: if_splits)
  then show ?thesis
    by (simp add: CalculateString_def)
qed

text \<open>
  Claim C9 says that \<open>CalculateString\<close> returns false and leaves \<^verbatim>\<open>*result\<close> empty
  for every key that is not delimited by \<^verbatim>\<open>=\<close>, the empty key among them. At the empty
  key the code returns false from the guard \<^verbatim>\<open>if (key.empty())\<close> without the
  \<^verbatim>\<open>result->clear()\<close> of the other three failure paths: a \<^verbatim>\<open>*result\<close> that holds
  \<^verbatim>\<open>old\<close> on entry still holds it on return.
\<close>

theorem CalculateString_empty_key_keeps_result:
  "CalculateString demo_externals [] ''old'' = Inr (False, ''old'')"
  by (simp add: CalculateString_def)

section \<open>The engine: theorems\<close>

text \<open>
  Claim C4. In every state whose \<^verbatim>\<open>initialized_\<close> is set and whose \<^verbatim>\<open>modules_\<close>
  holds the active modules \<open>m\<close>, each read accessor returns the active object:
  \<^verbatim>\<open>converter_\<close>, the name of \<^verbatim>\<open>predictor_\<close> (the empty name when there is no
  predictor), \<^verbatim>\<open>user_data_manager_\<close>, and the suppression dictionary, data manager, data
  version and POS list of \<open>m\<close>. In every state whose \<^verbatim>\<open>initialized_\<close> is not set, each
  returns the object of \<^verbatim>\<open>minimal_engine_\<close>.
\<close>

theorem accessors_follow_mode:
  "(initialized e \<and> modules e = Some m \<longrightarrow>
      GetConverter e = converter e \<and>
      GetPredictorName e = (case predictor e of Some p \<Rightarrow> predictor_name p | None \<Rightarrow> []) \<and>
      GetSuppressionDictionary e = Inr (suppression_dictionary m) \<and>
      GetUserDataManager e = user_data_manager e \<and>
      GetDataManager e = Inr (data_manager m) \<and>
      GetDataVersion e = Inr (data_version (data_manager m)) \<and>
      GetPosList e = Inr (pos_list (user_dictionary m))) \<and>
   (\<not> initialized e \<longrightarrow>
      GetConverter e = Some (minimal_converter (minimal_engine e)) \<and>
      GetPredictorName e = minimal_predictor_name (minimal_engine e) \<and>
      GetSuppressionDictionary e = Inr (minimal_suppression_dictionary (minimal_engine e)) \<and>
      GetUserDataManager e = Some (minimal_user_data_manager (minimal_engine e)) \<and>
      GetDataManager e = Inr (minimal_data_manager (minimal_engine e)) \<and>
      GetDataVersion e = Inr (data_version (minimal_data_manager (minimal_engine e))) \<and>
      GetPosList e = Inr (minimal_pos_list (minimal_engine e)))"
  by (simp add: GetConverter_def GetPredictorName_def GetSuppressionDictionary_def
      GetUserDataManager_def GetDataManager_def GetDataVersion_def GetPosList_def)

theorem accessors_follow_mode_witness:
  "initialized demo_active_engine \<and> modules demo_active_engine = Some demo_modules \<and>
   GetConverter demo_active_engine = Some (ConverterObject 1) \<and>
   GetPredictorName demo_active_engine = ''DefaultPredictor'' \<and>
   GetDataVersion demo_active_engine = Inr ''24.1'' \<and>
   GetPosList demo_active_engine = Inr [''noun'', ''verb''] \<and>
   \<not> initialized (CreateEngine demo_minimal_engine) \<and>
   GetDataVersion (CreateEngine demo_minimal_engine) = Inr ''0.0.0'' \<and>
   GetConverter (CreateEngine demo_minimal_engine) = Some (ConverterObject 0)"
proof -
  have a: "initialized demo_active_engine \<and> modules demo_active_engine = Some demo_modules"
    by (simp add: demo_active_engine_def)
  have f: "\<not> initialized (CreateEngine demo_minimal_engine)"
    by (simp add: CreateEngine_def)
  from a f
    accessors_follow_mode[of demo_active_engine demo_modules]
    accessors_follow_mode[of "CreateEngine demo_minimal_engine" demo_modules]
  show ?thesis
    by (simp add: demo_active_engine_def demo_modules_def CreateEngine_def
        demo_minimal_engine_def)
qed

text \<open>
  Claim C1. Whatever requests and completions came before (the events \<open>evs\<close>, from any
  state \<open>e\<close>), a response whose generation id is below \<open>latest_data_id\<close> when it is
  reaped is discarded: \<open>MaybeReloadEngine\<close> returns false and leaves the engine as it was,
  in particular its active subsystems and \<open>current_data_id\<close>.
\<close>

theorem stale_response_discarded:
  "response_id response < latest_data_id (run e evs) \<longrightarrow>
     MaybeReloadEngine (run e evs) response = (False, run e evs) \<and>
     current_data_id (snd (MaybeReloadEngine (run e evs) response))
       = current_data_id (run e evs) \<and>
     modules (snd (MaybeReloadEngine (run e evs) response)) = modules (run e evs) \<and>
     converter (snd (MaybeReloadEngine (run e evs) response)) = converter (run e evs) \<and>
     initialized (snd (MaybeReloadEngine (run e evs) response)) = initialized (run e evs)"
  by (simp add: MaybeReloadEngine_def)

lemma demo_two_requests:
  "latest_data_id (run (CreateEngine demo_minimal_engine) [Request demo_request, Request demo_request]) = 2"
  by (simp add: SendEngineReloadRequest_def CreateEngine_def demo_request_def)

theorem stale_response_discarded_witness:
  "response_id (demo_response 1 True)
     < latest_data_id
         (run (CreateEngine demo_minimal_engine) [Request demo_request, Request demo_request]) \<and>
   \<not> fst (MaybeReloadEngine
      (run (CreateEngine demo_minimal_engine) [Request demo_request, Request demo_request])
      (demo_response 1 True)) \<and>
   current_data_id (snd (MaybeReloadEngine
      (run (CreateEngine demo_minimal_engine) [Request demo_request, Request demo_request])
      (demo_response 1 True))) = 0"
proof -
  have s: "response_id (demo_response 1 True)
     < latest_data_id
         (run (CreateEngine demo_minimal_engine) [Request demo_request, Request demo_request])"
    unfolding demo_two_requests by (simp add: demo_response_def)
  have c: "current_data_id
      (run (CreateEngine demo_minimal_engine) [Request demo_request, Request demo_request]) = 0"
    by (simp add: SendEngineReloadRequest_def CreateEngine_def demo_request_def)
  from s c stale_response_discarded[of "demo_response 1 True"
      "CreateEngine demo_minimal_engine" "[Request demo_request, Request demo_request]"]
  show ?thesis by simp
qed

text \<open>
  Claim C7. \<open>SendEngineReloadRequest\<close> returns false for a request with an empty target
  and leaves the engine as it was: no id is consumed and no request stored. For any other
  request it returns true, increments \<open>latest_data_id\<close>, stores the request, and starts no
  build: the response future, \<open>current_data_id\<close> and the active subsystems are as before.
\<close>

theorem SendEngineReloadRequest_contract:
  "(request_target request = [] \<longrightarrow> SendEngineReloadRequest e request = (False, e)) \<and>
   (request_target request \<noteq> [] \<longrightarrow>
      fst (SendEngineReloadRequest e request) \<and>
      latest_data_id (snd (SendEngineReloadRequest e request)) = latest_data_id e + 1 \<and>
      loader_request (snd (SendEngineReloadRequest e request)) = Some request \<and>
      loader_response_future (snd (SendEngineReloadRequest e request)) = loader_response_future e \<and>
      current_data_id (snd (SendEngineReloadRequest e request)) = current_data_id e \<and>
      initialized (snd (SendEngineReloadRequest e request)) = initialized e \<and>
      modules (snd (SendEngineReloadRequest e request)) = modules e \<and>
      converter (snd (SendEngineReloadRequest e request)) = converter e)"
  by (simp add: SendEngineReloadRequest_def)

theorem SendEngineReloadRequest_contract_witness:
  "SendEngineReloadRequest (CreateEngine demo_minimal_engine)
      \<lparr> request_target = [], request_is_mobile = False \<rparr>
     = (False, CreateEngine demo_minimal_engine) \<and>
   fst (SendEngineReloadRequest (CreateEngine demo_minimal_engine) demo_request) \<and>
   latest_data_id (snd (SendEngineReloadRequest (CreateEngine demo_minimal_engine) demo_request)) = 1 \<and>
   loader_response_future (snd (SendEngineReloadRequest (CreateEngine demo_minimal_engine) demo_request)) = None"
proof -
  have a: "request_target \<lparr> request_target = [], request_is_mobile = False \<rparr> = []" by simp
  have b: "request_target demo_request \<noteq> []" by (simp add: demo_request_def)
  from a b
    SendEngineReloadRequest_contract[of "\<lparr> request_target = [], request_is_mobile = False \<rparr>"
      "CreateEngine demo_minimal_engine"]
    SendEngineReloadRequest_contract[of demo_request "CreateEngine demo_minimal_engine"]
  show ?thesis by (simp add: CreateEngine_def)
qed

end
